theory Spec2Isabelle
  imports Main "HOL-Library.Sublist"
begin

section \<open>Values, exceptions and user-interface events\<close>

text \<open>
  The dashboard (\<^verbatim>\<open>src/app.py\<close>) moves three kinds of Python values between its entry
  form, its SQLite table and its pandas frames: \<^verbatim>\<open>None\<close>, integers and strings
  (\<^verbatim>\<open>prepare_entry_data\<close> builds every field from a number input, a select box, a joined
  multiselect or \<^verbatim>\<open>form_data.get\<close>, which is \<^verbatim>\<open>None\<close> for an unbound name). A
  timestamp, which appears when \<^verbatim>\<open>load_data\<close> converts the \<^verbatim>\<open>Observation_Date\<close> column, is
  its number of seconds since the epoch, held in a column of dtype \<^verbatim>\<open>datetime64\<close>.
  A missing cell of a frame (\<^verbatim>\<open>None\<close>, \<^verbatim>\<open>NaN\<close>, \<^verbatim>\<open>NaT\<close>) is \<open>PNone\<close>.
\<close>

datatype pyval = PNone | PInt int | PStr string

text \<open>Python's truth value of an object, as \<^verbatim>\<open>not data.get(field)\<close> uses it.\<close>

fun truthy :: "pyval \<Rightarrow> bool" where
  "truthy PNone = False"
| "truthy (PInt n) = (n \<noteq> 0)"
| "truthy (PStr s) = (s \<noteq> [])"

text \<open>
  Exceptions are values. \<open>SqliteError\<close> stands for \<^verbatim>\<open>sqlite3.Error\<close> and its subclasses,
  \<open>DatabaseError\<close> for the error pandas raises when a query fails, \<open>ReError\<close> for
  \<^verbatim>\<open>re.error\<close>.
\<close>

datatype exn =
    SqliteError string
  | DatabaseError string
  | OverflowError
  | KeyError string
  | TypeError string
  | ValueError string
  | ReError
  | UnboundLocalError string

fun is_sqlite_error :: "exn \<Rightarrow> bool" where
  "is_sqlite_error (SqliteError m) = True"
| "is_sqlite_error e = False"

text \<open>\<^verbatim>\<open>str(e)\<close>, where the program shows it; a \<^verbatim>\<open>KeyError\<close> prints its key quoted.\<close>

definition quoted :: "string \<Rightarrow> string" where
  "quoted s = CHR 0x27 # s @ [CHR 0x27]"

fun str_exn :: "exn \<Rightarrow> string" where
  "str_exn (SqliteError m) = m"
| "str_exn (DatabaseError m) = m"
| "str_exn OverflowError = ''Python int too large to convert to SQLite INTEGER''"
| "str_exn (KeyError k) = quoted k"
| "str_exn (TypeError m) = m"
| "str_exn (ValueError m) = m"
| "str_exn ReError = ''re.error''"
| "str_exn (UnboundLocalError m) = m"

text \<open>
  What the program shows to the user through \<^verbatim>\<open>st.error\<close>, \<^verbatim>\<open>st.warning\<close>,
  \<^verbatim>\<open>st.success\<close> and \<^verbatim>\<open>st.info\<close>, in order. The pictographs that open some messages in the
  source are left out of the texts. Log lines and the timing that \<^verbatim>\<open>monitor_performance\<close>
  records around each call are not modelled: no claim reads them.
\<close>

datatype ui_event = StError string | StWarning string | StSuccess string | StInfo string

section \<open>Entry validation\<close>

text \<open>
  An entry is the \<^verbatim>\<open>dict\<close> that \<^verbatim>\<open>insert_entry\<close> receives: an association list in
  insertion order, read with \<open>map_of\<close> (\<^verbatim>\<open>data.get\<close>). A Python dict has each key once.
\<close>

type_synonym entry = "(string \<times> pyval) list"

definition required_fields :: "string list" where
  "required_fields = [''Age'', ''Sex'', ''Employment_Status'', ''Healthcare_Role'']"

text \<open>The loop over \<^verbatim>\<open>required_fields\<close>: the first field that is absent or falsy fails.\<close>

fun check_required :: "entry \<Rightarrow> string list \<Rightarrow> bool \<times> string" where
  "check_required data [] = (True, [])"
| "check_required data (field # fields) =
     (case map_of data field of
        None \<Rightarrow> (False, field @ '' is required'')
      | Some v \<Rightarrow>
          if \<not> truthy v then (False, field @ '' is required'')
          else check_required data fields)"

text \<open>
  \<^verbatim>\<open>validate_entry_data\<close>. \<^verbatim>\<open>data['Age']\<close> raises \<^verbatim>\<open>KeyError\<close> when the key is absent, and
  the comparison with \<^verbatim>\<open>18\<close> raises \<^verbatim>\<open>TypeError\<close> when the age is not a number; the
  function's own \<^verbatim>\<open>except Exception\<close> turns both into \<^verbatim>\<open>(False, str(e))\<close>.
\<close>

definition not_supported :: "string \<Rightarrow> string" where
  "not_supported ty =
     quoted ''<'' @ '' not supported between instances of '' @ quoted ty @ '' and '' @ quoted ''int''"

definition validate_entry_data :: "entry \<Rightarrow> bool \<times> string" where
  "validate_entry_data data =
     (case map_of data ''Age'' of
        None \<Rightarrow> (False, str_exn (KeyError ''Age''))
      | Some PNone \<Rightarrow> (False, str_exn (TypeError (not_supported ''NoneType'')))
      | Some (PStr s) \<Rightarrow> (False, str_exn (TypeError (not_supported ''str'')))
      | Some (PInt age) \<Rightarrow>
          if age < 18 \<or> age > 100 then (False, ''Age must be between 18 and 100'')
          else check_required data required_fields)"

section \<open>The record store\<close>

text \<open>
  The table that \<^verbatim>\<open>create_database\<close> declares: \<^verbatim>\<open>id INTEGER PRIMARY KEY AUTOINCREMENT\<close>
  and 46 data columns, each \<^verbatim>\<open>INTEGER\<close> or \<^verbatim>\<open>TEXT\<close>. \<^verbatim>\<open>REAL\<close> and \<^verbatim>\<open>TIMESTAMP\<close> are the
  other two types that \<^verbatim>\<open>DataFrame.to_sql\<close> declares when it re-creates the table.
\<close>

datatype coltype = INTEGER | TEXT | REAL | TIMESTAMP

definition schema :: "(string \<times> coltype) list" where
  "schema =
    [(''id'', INTEGER), (''Age'', INTEGER), (''Sex'', TEXT), (''Employment_Status'', TEXT),
     (''Income_Level'', TEXT), (''Social_Deprivation'', INTEGER),
     (''Material_Deprivation'', INTEGER), (''Healthcare_Role'', TEXT), (''Department'', TEXT),
     (''Years_Experience'', INTEGER), (''Weekly_Hours'', INTEGER),
     (''Night_Shifts_Monthly'', INTEGER), (''Overtime_Hours_Monthly'', INTEGER),
     (''Patient_Facing'', TEXT), (''Management_Responsibilities'', TEXT),
     (''Work_Stress_Level'', INTEGER), (''Job_Satisfaction'', INTEGER),
     (''Workplace_Support'', INTEGER), (''Burnout_Level'', INTEGER),
     (''Sick_Days_Last_Year'', INTEGER), (''Workplace_Incidents'', INTEGER),
     (''Recent_Promotion'', TEXT), (''Recent_Demotion'', TEXT), (''MH_Disorders'', TEXT),
     (''Substance_Use_Disorders'', TEXT), (''History_Suicidal_Ideation'', INTEGER),
     (''Previous_Suicide_Attempts'', INTEGER), (''Frequency_Suicidal_Thoughts'', INTEGER),
     (''Intensity_Suicidal_Thoughts'', INTEGER), (''Chronic_Illnesses'', TEXT),
     (''GP_Visits'', INTEGER), (''ED_Visits'', INTEGER), (''Hospitalizations'', INTEGER),
     (''Hopelessness'', INTEGER), (''Despair'', INTEGER), (''Impulsivity'', INTEGER),
     (''Aggression'', INTEGER), (''Access_Lethal_Means'', INTEGER),
     (''Social_Isolation'', INTEGER), (''Coping_Strategies'', INTEGER),
     (''Measured_Resilience'', INTEGER), (''MH_Service_Engagement'', INTEGER),
     (''Supportive_Relationships'', INTEGER), (''Suicidal_Distress'', INTEGER),
     (''Time_To_Crisis'', INTEGER), (''Crisis_Event'', INTEGER), (''Observation_Date'', TEXT)]"

text \<open>
  A table has its declared columns and its rows. A row gives each column its cell, in
  column order, under the column's name (the shape of \<^verbatim>\<open>sqlite3.Row\<close> and of
  \<^verbatim>\<open>DataFrame.to_dict('records')\<close>). \<open>autoinc\<close> says that the column \<^verbatim>\<open>id\<close> is the
  auto-assigned key (true of the table \<^verbatim>\<open>create_database\<close> makes, false of one that
  \<^verbatim>\<open>DataFrame.to_sql\<close> has re-created). The store is the database file: whether a
  connection can be opened, the table if it exists, and the highest key ever handed out
  (SQLite's \<^verbatim>\<open>sqlite_sequence\<close>).
\<close>

type_synonym row = "(string \<times> pyval) list"

record table =
  tcols :: "(string \<times> coltype) list"
  autoinc :: bool
  trows :: "row list"

record store =
  connectable :: bool
  tbl :: "table option"
  seq :: int

text \<open>The cell of a row under a column name; a name the row lacks reads as missing.\<close>

definition cell :: "row \<Rightarrow> string \<Rightarrow> pyval" where
  "cell r c = (case map_of r c of None \<Rightarrow> PNone | Some v \<Rightarrow> v)"

definition table_ids :: "table \<Rightarrow> int list" where
  "table_ids t = concat (map (\<lambda>r. case cell r ''id'' of PInt n \<Rightarrow> [n] | _ \<Rightarrow> []) (trows t))"

text \<open>
  \<^verbatim>\<open>get_db_connection\<close>: \<^verbatim>\<open>sqlite3.connect\<close> either yields a connection or raises; the
  context manager shows a generic error for every \<^verbatim>\<open>sqlite3.Error\<close> that passes through it
  (from the connect or from the body of the \<^verbatim>\<open>with\<close>) and raises it again.
\<close>

definition get_db_connection :: "store \<Rightarrow> exn + unit" where
  "get_db_connection st =
     (if connectable st then Inr () else Inl (SqliteError ''unable to open database file''))"

definition connection_error_event :: ui_event where
  "connection_error_event = StError ''An unexpected error occurred. Please check the logs.''"

text \<open>
  SQLite stores a value of the column's declared type, and \<^verbatim>\<open>NULL\<close>, as it is. A value of
  another type goes through the column's affinity conversion, which belongs to SQLite and
  is the parameter \<open>coerce\<close> here. An integer outside 64 bits cannot be bound at all:
  Python's driver raises \<^verbatim>\<open>OverflowError\<close>, which is not an \<^verbatim>\<open>sqlite3.Error\<close>.
\<close>

fun has_type :: "coltype \<Rightarrow> pyval \<Rightarrow> bool" where
  "has_type ty PNone = True"
| "has_type INTEGER (PInt n) = True"
| "has_type TEXT (PStr s) = True"
| "has_type ty v = False"

definition affinity :: "(coltype \<Rightarrow> pyval \<Rightarrow> pyval) \<Rightarrow> coltype \<Rightarrow> pyval \<Rightarrow> pyval" where
  "affinity coerce ty v = (if has_type ty v then v else coerce ty v)"

fun bindable :: "pyval \<Rightarrow> bool" where
  "bindable (PInt n) = (- (2 ^ 63) \<le> n \<and> n < 2 ^ 63)"
| "bindable v = True"

definition new_row :: "(coltype \<Rightarrow> pyval \<Rightarrow> pyval) \<Rightarrow> table \<Rightarrow> pyval \<Rightarrow> entry \<Rightarrow> row" where
  "new_row coerce t key data =
     map (\<lambda>(c, ty). (c, if autoinc t \<and> c = ''id'' then key
                         else (case map_of data c of None \<Rightarrow> PNone | Some v \<Rightarrow> affinity coerce ty v)))
         (tcols t)"

text \<open>
  The statement \<^verbatim>\<open>INSERT INTO resume_data (<keys>) VALUES (?, ...)\<close> that
  \<^verbatim>\<open>insert_entry\<close> builds from the entry's keys, run and committed. It fails when the table
  does not exist, when the entry has no key, and when a key is not a column of the table
  (keys are compared with the column names as they are written; SQL's quoting and
  case-folding of identifiers are not modelled). With the auto-assigned key, a row gets
  one more than the highest key ever used unless the entry names its own \<^verbatim>\<open>id\<close>, which
  must then be new.
\<close>

definition fresh_id :: "store \<Rightarrow> table \<Rightarrow> int" where
  "fresh_id st t = fold max (table_ids t) (seq st) + 1"

definition append_row :: "store \<Rightarrow> table \<Rightarrow> row \<Rightarrow> int \<Rightarrow> store" where
  "append_row st t r key = st\<lparr>tbl := Some (t\<lparr>trows := trows t @ [r]\<rparr>), seq := max (seq st) key\<rparr>"

definition execute_insert :: "(coltype \<Rightarrow> pyval \<Rightarrow> pyval) \<Rightarrow> store \<Rightarrow> entry \<Rightarrow> exn + store" where
  "execute_insert coerce st data =
     (case tbl st of
        None \<Rightarrow> Inl (SqliteError ''no such table: resume_data'')
      | Some t \<Rightarrow>
          if data = [] then Inl (SqliteError ''near \")\": syntax error'')
          else (case filter (\<lambda>k. k \<notin> set (map fst (tcols t))) (map fst data) of
              k # ks \<Rightarrow> Inl (SqliteError (''table resume_data has no column named '' @ k))
            | [] \<Rightarrow>
                if \<not> list_all bindable (map snd data) then Inl OverflowError
                else if \<not> autoinc t then Inr (st\<lparr>tbl := Some (t\<lparr>trows := trows t @ [new_row coerce t PNone data]\<rparr>)\<rparr>)
                else (case (case map_of data ''id'' of None \<Rightarrow> PNone | Some v \<Rightarrow> affinity coerce INTEGER v) of
                    PNone \<Rightarrow>
                      if fresh_id st t \<ge> 2 ^ 63 then Inl (SqliteError ''database or disk is full'')
                      else Inr (append_row st t (new_row coerce t (PInt (fresh_id st t)) data) (fresh_id st t))
                  | PInt n \<Rightarrow>
                      if n \<in> set (table_ids t) then Inl (SqliteError ''UNIQUE constraint failed: resume_data.id'')
                      else Inr (append_row st t (new_row coerce t (PInt n) data) n)
                  | v \<Rightarrow> Inl (SqliteError ''datatype mismatch''))))"

text \<open>
  \<^verbatim>\<open>insert_entry\<close>: validate, then write inside one connection. An invalid entry is
  reported and refused before any connection is opened. Every \<^verbatim>\<open>sqlite3.Error\<close> is
  reported (by the connection manager, then by the function) and becomes \<^verbatim>\<open>False\<close>; any
  other exception leaves the function. The result is the returned value or the exception,
  the store afterwards, and what the user was shown.
\<close>

definition insert_entry ::
  "(coltype \<Rightarrow> pyval \<Rightarrow> pyval) \<Rightarrow> store \<Rightarrow> entry \<Rightarrow> (exn + bool) \<times> store \<times> ui_event list" where
  "insert_entry coerce st data =
     (case validate_entry_data data of
        (False, error_message) \<Rightarrow>
          (Inr False, st, [StError (''Validation error: '' @ error_message)])
      | (True, error_message) \<Rightarrow>
          (case (case get_db_connection st of Inl e \<Rightarrow> Inl e | Inr conn \<Rightarrow> execute_insert coerce st data) of
             Inr st' \<Rightarrow> (Inr True, st', [])
           | Inl e \<Rightarrow>
               if is_sqlite_error e
               then (Inr False, st,
                     [connection_error_event, StError (''Failed to save data: '' @ str_exn e)])
               else (Inl e, st, [])))"




section \<open>Frames and loading\<close>

text \<open>
  A pandas frame: its columns with their dtypes, and its rows in order. Row labels (the
  index) are not modelled; the operations below keep the rows' order. Numbers are exact
  integers: every numeric column of the table is declared \<^verbatim>\<open>INTEGER\<close>, and the rounding of
  integers beyond \<open>2 ^ 53\<close> in a \<^verbatim>\<open>float64\<close> column is outside the model.
\<close>

datatype dtype = Int64 | Float64 | Object | Datetime64

record dataframe =
  df_columns :: "(string \<times> dtype) list"
  df_rows :: "row list"

text \<open>\<^verbatim>\<open>pd.DataFrame()\<close>, and \<^verbatim>\<open>DataFrame.empty\<close> (some axis has length zero).\<close>

definition empty_frame :: dataframe where
  "empty_frame = \<lparr>df_columns = [], df_rows = []\<rparr>"

definition df_empty :: "dataframe \<Rightarrow> bool" where
  "df_empty df = (df_columns df = [] \<or> df_rows df = [])"

definition has_column :: "dataframe \<Rightarrow> string \<Rightarrow> bool" where
  "has_column df c = (c \<in> set (map fst (df_columns df)))"

definition column_values :: "dataframe \<Rightarrow> string \<Rightarrow> pyval list" where
  "column_values df c = map (\<lambda>r. cell r c) (df_rows df)"

text \<open>
  The dtype pandas gives a column read from SQL: \<^verbatim>\<open>int64\<close> when every cell is an integer,
  \<^verbatim>\<open>float64\<close> when integers and missing cells mix, \<^verbatim>\<open>object\<close> otherwise (text, a column
  of missing cells only, a table with no rows).
\<close>

fun is_int :: "pyval \<Rightarrow> bool" where
  "is_int (PInt n) = True"
| "is_int v = False"

definition infer_dtype :: "pyval list \<Rightarrow> dtype" where
  "infer_dtype vs =
     (if vs \<noteq> [] \<and> list_all is_int vs then Int64
      else if list_ex is_int vs \<and> list_all (\<lambda>v. is_int v \<or> v = PNone) vs then Float64
      else Object)"

text \<open>
  \<^verbatim>\<open>pd.read_sql_query("SELECT * FROM resume_data", conn)\<close>: every column of the table and
  every row, or pandas' \<^verbatim>\<open>DatabaseError\<close> when the table does not exist. A table with no
  rows still yields its columns.
\<close>

definition read_sql_query :: "store \<Rightarrow> exn + dataframe" where
  "read_sql_query st =
     (case tbl st of
        None \<Rightarrow> Inl (DatabaseError ''Execution failed on sql: no such table: resume_data'')
      | Some t \<Rightarrow>
          Inr \<lparr>df_columns = map (\<lambda>(c, ty). (c, infer_dtype (map (\<lambda>r. cell r c) (trows t)))) (tcols t),
               df_rows = trows t\<rparr>)"

text \<open>
  \<^verbatim>\<open>df[c] = values\<close> with a new dtype, and \<^verbatim>\<open>df[c] = f(df[c])\<close> for a cell-wise \<open>f\<close>.
  Assigning a column of another length raises \<^verbatim>\<open>ValueError\<close>.
\<close>

definition set_cell :: "string \<Rightarrow> pyval \<Rightarrow> row \<Rightarrow> row" where
  "set_cell c v r = map (\<lambda>(k, x). (k, if k = c then v else x)) r"

definition assign_column :: "dataframe \<Rightarrow> string \<Rightarrow> dtype \<Rightarrow> pyval list \<Rightarrow> exn + dataframe" where
  "assign_column df c dt vs =
     (if length vs \<noteq> length (df_rows df)
      then Inl (ValueError ''Length of values does not match length of index'')
      else Inr \<lparr>df_columns = map (\<lambda>(k, d). (k, if k = c then dt else d)) (df_columns df),
                df_rows = map (\<lambda>(r, v). set_cell c v r) (zip (df_rows df) vs)\<rparr>)"

definition map_column :: "(pyval \<Rightarrow> pyval) \<Rightarrow> string \<Rightarrow> dataframe \<Rightarrow> dataframe" where
  "map_column f c df =
     df\<lparr>df_rows := map (map (\<lambda>(k, x). (k, if k = c then f x else x))) (df_rows df)\<rparr>"

text \<open>
  \<^verbatim>\<open>pd.to_numeric(..., errors='coerce')\<close> on a cell of a numeric column: a number stays,
  anything else becomes missing. The columns it runs over are those of dtype \<^verbatim>\<open>int64\<close>
  or \<^verbatim>\<open>float64\<close>.
\<close>

fun to_numeric_coerce :: "pyval \<Rightarrow> pyval" where
  "to_numeric_coerce (PInt n) = PInt n"
| "to_numeric_coerce v = PNone"

definition numeric_columns :: "dataframe \<Rightarrow> string list" where
  "numeric_columns df = map fst (filter (\<lambda>(c, d). d = Int64 \<or> d = Float64) (df_columns df))"

text \<open>
  The body of \<^verbatim>\<open>load_data\<close>, before its \<^verbatim>\<open>except\<close>: connect, read the table, convert
  \<^verbatim>\<open>Observation_Date\<close> when the column is there, convert the numeric columns.
  \<^verbatim>\<open>pd.to_datetime\<close> belongs to pandas and is the parameter \<open>to_datetime\<close>: it returns the
  converted column or raises.
\<close>

definition load_data_body :: "(pyval list \<Rightarrow> exn + pyval list) \<Rightarrow> store \<Rightarrow> exn + dataframe" where
  "load_data_body to_datetime st =
     (case get_db_connection st of
        Inl e \<Rightarrow> Inl e
      | Inr conn \<Rightarrow>
          (case read_sql_query st of
             Inl e \<Rightarrow> Inl e
           | Inr df \<Rightarrow>
               (case (if has_column df ''Observation_Date''
                      then (case to_datetime (column_values df ''Observation_Date'') of
                              Inl e \<Rightarrow> Inl e
                            | Inr vs \<Rightarrow> assign_column df ''Observation_Date'' Datetime64 vs)
                      else Inr df) of
                  Inl e \<Rightarrow> Inl e
                | Inr df1 \<Rightarrow>
                    Inr (fold (map_column to_numeric_coerce) (numeric_columns df1) df1))))"




section \<open>The filter engine\<close>

text \<open>
  Strings are ASCII text. \<^verbatim>\<open>case=False\<close> compares letters without their case; \<open>lower\<close>
  folds the letters \<^verbatim>\<open>A\<close> to \<^verbatim>\<open>Z\<close>.
\<close>

definition lower_char :: "char \<Rightarrow> char" where
  "lower_char c =
     (case map_of (zip ''ABCDEFGHIJKLMNOPQRSTUVWXYZ'' ''abcdefghijklmnopqrstuvwxyz'') c of
        None \<Rightarrow> c | Some l \<Rightarrow> l)"

definition lower :: "string \<Rightarrow> string" where
  "lower s = map lower_char s"

text \<open>\<^verbatim>\<open>str(v)\<close>, which \<^verbatim>\<open>astype(str)\<close> applies to each cell of an \<^verbatim>\<open>object\<close> column.\<close>

fun digits :: "nat \<Rightarrow> string" where
  "digits n =
     (if n < 10 then [''0123456789'' ! n]
      else digits (n div 10) @ [''0123456789'' ! (n mod 10)])"

declare digits.simps [simp del]

fun py_str :: "pyval \<Rightarrow> string" where
  "py_str PNone = ''None''"
| "py_str (PInt n) = (if n < 0 then CHR ''-'' # digits (nat (- n)) else digits (nat n))"
| "py_str (PStr s) = s"

text \<open>
  \<^verbatim>\<open>Series.str.contains(pat, case=False, na=False)\<close> leaves \<^verbatim>\<open>regex\<close> at its default
  \<^verbatim>\<open>True\<close>: the term is compiled as a regular expression with \<^verbatim>\<open>re.IGNORECASE\<close> and
  searched for in each string. A pattern of ordinary characters and dots is modelled
  here: an ordinary character matches itself in either case, a dot matches any character
  but a newline. A pattern that uses another operator of Python's \<^verbatim>\<open>re\<close> (a backslash or
  one of \<^verbatim>\<open>^ $ * + ? { } [ ] | ( )\<close>) goes to the parameter \<open>re\<close>, which stands for
  \<^verbatim>\<open>re.compile\<close> on such patterns: it raises \<^verbatim>\<open>re.error\<close> or yields the search predicate.
\<close>

definition other_metachars :: "char list" where
  "other_metachars = CHR 0x5C # ''^$*+?{}[]|()''"

definition plain_or_dot :: "string \<Rightarrow> bool" where
  "plain_or_dot pat = list_all (\<lambda>c. c \<notin> set other_metachars) pat"

fun match_here :: "string \<Rightarrow> string \<Rightarrow> bool" where
  "match_here [] s = True"
| "match_here (p # ps) [] = False"
| "match_here (p # ps) (c # cs) =
     ((if p = CHR ''.'' then c \<noteq> CHR 0x0A else lower_char p = lower_char c) \<and> match_here ps cs)"

fun search :: "string \<Rightarrow> string \<Rightarrow> bool" where
  "search pat [] = match_here pat []"
| "search pat (c # cs) = (match_here pat (c # cs) \<or> search pat cs)"

definition re_compile_ignorecase ::
  "(string \<Rightarrow> exn + (string \<Rightarrow> bool)) \<Rightarrow> string \<Rightarrow> exn + (string \<Rightarrow> bool)" where
  "re_compile_ignorecase re pat = (if plain_or_dot pat then Inr (search pat) else re pat)"

definition str_contains ::
  "(string \<Rightarrow> exn + (string \<Rightarrow> bool)) \<Rightarrow> string \<Rightarrow> pyval list \<Rightarrow> exn + bool list" where
  "str_contains re pat vals =
     (case re_compile_ignorecase re pat of
        Inl e \<Rightarrow> Inl e
      | Inr found \<Rightarrow> Inr (map (\<lambda>v. found (py_str v)) vals))"

text \<open>
  \<^verbatim>\<open>select_dtypes(include=['object']).columns\<close>, and \<^verbatim>\<open>df[keep]\<close> for a boolean series
  \<open>keep\<close>: the rows whose flag is set, in order.
\<close>

definition object_columns :: "dataframe \<Rightarrow> string list" where
  "object_columns df = map fst (filter (\<lambda>(c, d). d = Object) (df_columns df))"

definition select_rows :: "dataframe \<Rightarrow> bool list \<Rightarrow> dataframe" where
  "select_rows df keep = df\<lparr>df_rows := map fst (filter snd (zip (df_rows df) keep))\<rparr>"

text \<open>
  The text search of \<^verbatim>\<open>apply_filters\<close>: starting from an all-false series, each
  \<^verbatim>\<open>object\<close> column in turn adds its hits; with an empty term nothing is filtered. The
  pattern is compiled once per column, so a frame without \<^verbatim>\<open>object\<close> columns never
  compiles it.
\<close>

fun text_mask ::
  "(string \<Rightarrow> exn + (string \<Rightarrow> bool)) \<Rightarrow> string \<Rightarrow> dataframe \<Rightarrow> string list \<Rightarrow> bool list
     \<Rightarrow> exn + bool list" where
  "text_mask re pat df [] keep = Inr keep"
| "text_mask re pat df (col # cols) keep =
     (case str_contains re pat (column_values df col) of
        Inl e \<Rightarrow> Inl e
      | Inr hits \<Rightarrow> text_mask re pat df cols (map (\<lambda>(m, h). m \<or> h) (zip keep hits)))"

definition text_search ::
  "(string \<Rightarrow> exn + (string \<Rightarrow> bool)) \<Rightarrow> dataframe \<Rightarrow> string \<Rightarrow> exn + dataframe" where
  "text_search re df search_term =
     (if search_term \<noteq> [] then
        (case text_mask re search_term df (object_columns df) (replicate (length (df_rows df)) False) of
           Inl e \<Rightarrow> Inl e
         | Inr keep \<Rightarrow> Inr (select_rows df keep))
      else Inr df)"

text \<open>
  Comparing a column with a number. \<^verbatim>\<open>df[c]\<close> raises \<^verbatim>\<open>KeyError\<close> for a column the frame
  does not have. In a numeric column a missing cell compares false; in an \<^verbatim>\<open>object\<close>
  column \<^verbatim>\<open>None\<close> and text cannot be compared with a number, and a \<^verbatim>\<open>datetime64\<close> column
  cannot at all: \<^verbatim>\<open>TypeError\<close>.
\<close>

fun traverse :: "('a \<Rightarrow> exn + 'b) \<Rightarrow> 'a list \<Rightarrow> exn + 'b list" where
  "traverse f [] = Inr []"
| "traverse f (x # xs) =
     (case f x of
        Inl e \<Rightarrow> Inl e
      | Inr y \<Rightarrow> (case traverse f xs of Inl e \<Rightarrow> Inl e | Inr ys \<Rightarrow> Inr (y # ys)))"

fun compare_cell :: "(int \<Rightarrow> bool) \<Rightarrow> dtype \<Rightarrow> pyval \<Rightarrow> exn + bool" where
  "compare_cell p dt (PInt n) = Inr (p n)"
| "compare_cell p dt PNone =
     (if dt = Object then Inl (TypeError ''comparison not supported between NoneType and int'')
      else Inr False)"
| "compare_cell p dt (PStr s) = Inl (TypeError ''comparison not supported between str and int'')"

definition compare_column :: "dataframe \<Rightarrow> string \<Rightarrow> (int \<Rightarrow> bool) \<Rightarrow> exn + bool list" where
  "compare_column df c p =
     (case map_of (df_columns df) c of
        None \<Rightarrow> Inl (KeyError c)
      | Some dt \<Rightarrow>
          if dt = Datetime64 then Inl (TypeError ''Invalid comparison between datetime64 and int'')
          else traverse (\<lambda>r. compare_cell p dt (cell r c)) (df_rows df))"

text \<open>\<^verbatim>\<open>df[c].isin(allowed)\<close>.\<close>

definition isin_column :: "dataframe \<Rightarrow> string \<Rightarrow> pyval list \<Rightarrow> exn + bool list" where
  "isin_column df c allowed =
     (case map_of (df_columns df) c of
        None \<Rightarrow> Inl (KeyError c)
      | Some dt \<Rightarrow> Inr (map (\<lambda>r. cell r c \<in> set allowed) (df_rows df)))"

text \<open>
  \<^verbatim>\<open>filter_vars\<close> is the \<^verbatim>\<open>locals()\<close> of \<^verbatim>\<open>display_database_front\<close>. Of its names, six
  hold filter selections; each is bound or not (\<^verbatim>\<open>'age_range' in filter_vars\<close>). The
  other names in that dictionary are never read by \<^verbatim>\<open>apply_filters\<close>.
\<close>

record filter_vars =
  age_range :: "(int \<times> int) option"
  selected_genders :: "pyval list option"
  selected_roles :: "pyval list option"
  selected_departments :: "pyval list option"
  risk_level :: "(int \<times> int) option"
  crisis_filter :: "pyval list option"

text \<open>The two criteria that \<^verbatim>\<open>apply_filters\<close> reads (``Add more filters as needed'').\<close>

definition filter_age :: "dataframe \<Rightarrow> filter_vars \<Rightarrow> exn + dataframe" where
  "filter_age df fv =
     (case age_range fv of
        None \<Rightarrow> Inr df
      | Some (lo, hi) \<Rightarrow>
          (case compare_column df ''Age'' (\<lambda>n. n \<ge> lo) of
             Inl e \<Rightarrow> Inl e
           | Inr ge \<Rightarrow>
               (case compare_column df ''Age'' (\<lambda>n. n \<le> hi) of
                  Inl e \<Rightarrow> Inl e
                | Inr le \<Rightarrow> Inr (select_rows df (map (\<lambda>(a, b). a \<and> b) (zip ge le))))))"

definition filter_genders :: "dataframe \<Rightarrow> filter_vars \<Rightarrow> exn + dataframe" where
  "filter_genders df fv =
     (case selected_genders fv of
        None \<Rightarrow> Inr df
      | Some allowed \<Rightarrow>
          (case isin_column df ''Sex'' allowed of
             Inl e \<Rightarrow> Inl e
           | Inr keep \<Rightarrow> Inr (select_rows df keep)))"

text \<open>\<^verbatim>\<open>apply_filters\<close>: the text search, then the age range, then the genders.\<close>

definition apply_filters ::
  "(string \<Rightarrow> exn + (string \<Rightarrow> bool)) \<Rightarrow> dataframe \<Rightarrow> string \<Rightarrow> filter_vars \<Rightarrow> exn + dataframe" where
  "apply_filters re df search_term fv =
     (case text_search re df search_term of
        Inl e \<Rightarrow> Inl e
      | Inr df1 \<Rightarrow>
          (case filter_age df1 fv of
             Inl e \<Rightarrow> Inl e
           | Inr df2 \<Rightarrow> filter_genders df2 fv))"

text \<open>
  How \<^verbatim>\<open>display_database_front\<close> fills that dictionary: a widget is created, and its
  name bound, only under \<^verbatim>\<open>if '<column>' in df.columns\<close>. \<open>front_inputs\<close> is what the
  user has set on the widgets.
\<close>

record front_inputs =
  in_age_range :: "int \<times> int"
  in_genders :: "pyval list"
  in_roles :: "pyval list"
  in_departments :: "pyval list"
  in_risk_level :: "int \<times> int"
  in_crisis_filter :: "pyval list"

definition front_locals :: "dataframe \<Rightarrow> front_inputs \<Rightarrow> filter_vars" where
  "front_locals df inp =
     \<lparr>age_range = (if has_column df ''Age'' then Some (in_age_range inp) else None),
      selected_genders = (if has_column df ''Sex'' then Some (in_genders inp) else None),
      selected_roles = (if has_column df ''Healthcare_Role'' then Some (in_roles inp) else None),
      selected_departments = (if has_column df ''Department'' then Some (in_departments inp) else None),
      risk_level = (if has_column df ''Suicidal_Distress'' then Some (in_risk_level inp) else None),
      crisis_filter = (if has_column df ''Crisis_Event'' then Some (in_crisis_filter inp) else None)\<rparr>"

subsection \<open>What the specification says of the filters\<close>

text \<open>
  The specification's free-text rule, in its own words: a row matches when the term,
  without regard to case, is a substring of the string form of some text-typed column;
  an empty term filters nothing. \<open>plain\<close> terms are those without any operator of
  regular expressions.
\<close>

definition term_in_row :: "string \<Rightarrow> dataframe \<Rightarrow> row \<Rightarrow> bool" where
  "term_in_row search_term df r =
     list_ex (\<lambda>c. sublist (lower search_term) (lower (py_str (cell r c)))) (object_columns df)"

definition free_text_spec :: "dataframe \<Rightarrow> string \<Rightarrow> dataframe" where
  "free_text_spec df search_term =
     (if search_term = [] then df
      else df\<lparr>df_rows := filter (term_in_row search_term df) (df_rows df)\<rparr>)"


text \<open>
  The range rule and the membership rule for the two criteria: the age lies in the closed
  interval, the sex is one of the selected values; a criterion that is not set holds of
  every row.
\<close>

definition age_ok :: "filter_vars \<Rightarrow> row \<Rightarrow> bool" where
  "age_ok fv r =
     (case age_range fv of
        None \<Rightarrow> True
      | Some (lo, hi) \<Rightarrow> (case cell r ''Age'' of PInt n \<Rightarrow> lo \<le> n \<and> n \<le> hi | _ \<Rightarrow> False))"

definition gender_ok :: "filter_vars \<Rightarrow> row \<Rightarrow> bool" where
  "gender_ok fv r =
     (case selected_genders fv of None \<Rightarrow> True | Some allowed \<Rightarrow> cell r ''Sex'' \<in> set allowed)"

text \<open>
  The criteria fit a frame when the column of each criterion that is set is there, the
  \<^verbatim>\<open>Age\<close> column being numeric (dtype \<^verbatim>\<open>int64\<close> or \<^verbatim>\<open>float64\<close>, holding numbers and missing
  cells).
\<close>

definition numeric_column :: "dataframe \<Rightarrow> string \<Rightarrow> bool" where
  "numeric_column df c =
     ((map_of (df_columns df) c = Some Int64 \<or> map_of (df_columns df) c = Some Float64)
      \<and> list_all (\<lambda>r. case cell r c of PStr s \<Rightarrow> False | _ \<Rightarrow> True) (df_rows df))"

definition criteria_fit :: "dataframe \<Rightarrow> filter_vars \<Rightarrow> bool" where
  "criteria_fit df fv =
     ((age_range fv \<noteq> None \<longrightarrow> numeric_column df ''Age'')
      \<and> (selected_genders fv \<noteq> None \<longrightarrow> map_of (df_columns df) ''Sex'' \<noteq> None))"

subsection \<open>Example frames\<close>

text \<open>
  Two small frames, a dictionary without any selection, and a stand-in for \<^verbatim>\<open>re.compile\<close>
  that refuses every pattern handed to it (the examples hand it none).
\<close>

definition no_criteria :: filter_vars where
  "no_criteria = \<lparr>age_range = None, selected_genders = None, selected_roles = None,
                  selected_departments = None, risk_level = None, crisis_filter = None\<rparr>"

definition staff :: dataframe where
  "staff =
     \<lparr>df_columns = [(''id'', Int64), (''Age'', Int64), (''Sex'', Object), (''Healthcare_Role'', Object)],
      df_rows = [[(''id'', PInt 1), (''Age'', PInt 30), (''Sex'', PStr ''Female''),
                  (''Healthcare_Role'', PStr ''Nurse'')],
                 [(''id'', PInt 2), (''Age'', PInt 45), (''Sex'', PStr ''Male''),
                  (''Healthcare_Role'', PStr ''Doctor'')]]\<rparr>"

definition roles_only :: dataframe where
  "roles_only =
     \<lparr>df_columns = [(''id'', Int64), (''Healthcare_Role'', Object)],
      df_rows = [[(''id'', PInt 1), (''Healthcare_Role'', PStr ''Nurse'')]]\<rparr>"

definition no_re :: "string \<Rightarrow> exn + (string \<Rightarrow> bool)" where
  "no_re pat = Inl ReError"

section \<open>Survival analyses\<close>

text \<open>
  \<^verbatim>\<open>df[cols]\<close> for a list of column names (\<^verbatim>\<open>KeyError\<close> when one is absent) and
  \<^verbatim>\<open>dropna()\<close>, which drops every row with a missing cell.
\<close>

definition project_row :: "string list \<Rightarrow> row \<Rightarrow> row" where
  "project_row cs r = map (\<lambda>c. (c, cell r c)) cs"

definition project :: "dataframe \<Rightarrow> string list \<Rightarrow> exn + dataframe" where
  "project df cs =
     (case filter (\<lambda>c. \<not> has_column df c) cs of
        c # rest \<Rightarrow> Inl (KeyError c)
      | [] \<Rightarrow>
          Inr \<lparr>df_columns = map (\<lambda>c. (c, case map_of (df_columns df) c of None \<Rightarrow> Object | Some d \<Rightarrow> d)) cs,
               df_rows = map (project_row cs) (df_rows df)\<rparr>)"

definition dropna :: "dataframe \<Rightarrow> dataframe" where
  "dropna df = df\<lparr>df_rows := filter (list_all (\<lambda>(c, v). v \<noteq> PNone)) (df_rows df)\<rparr>"

text \<open>
  \<^verbatim>\<open>display_kaplan_meier_analysis\<close>. What is recorded of a fit is the pair of series handed
  to \<^verbatim>\<open>KaplanMeierFitter.fit\<close>: the whole \<^verbatim>\<open>Time_To_Crisis\<close> column and the whole
  \<^verbatim>\<open>Crisis_Event\<close> column of the frame. The estimator itself belongs to \<^verbatim>\<open>lifelines\<close>.
\<close>

datatype km_outcome = KMFitted "pyval list" "pyval list" | KMWarning string

definition display_kaplan_meier_analysis :: "dataframe \<Rightarrow> km_outcome" where
  "display_kaplan_meier_analysis df =
     (if has_column df ''Time_To_Crisis'' \<and> has_column df ''Crisis_Event''
      then KMFitted (column_values df ''Time_To_Crisis'') (column_values df ''Crisis_Event'')
      else KMWarning ''Required data for Kaplan-Meier analysis is not available.'')"

text \<open>
  Its sibling \<^verbatim>\<open>display_cox_analysis\<close>: the same two columns are required, then the
  duration, event and covariate columns are selected, rows with a missing value are
  dropped, and the model is fitted only when a row remains. An absent covariate column
  raises inside the function's \<^verbatim>\<open>try\<close> and is reported as an error.
\<close>

datatype cox_outcome = CoxFitted "row list" | CoxWarning string | CoxError string

definition cox_columns :: "string list" where
  "cox_columns = [''Time_To_Crisis'', ''Crisis_Event''] @
                 [''Age'', ''Work_Stress_Level'', ''Burnout_Level'', ''Social_Isolation'']"

definition display_cox_analysis :: "dataframe \<Rightarrow> cox_outcome" where
  "display_cox_analysis df =
     (if list_all (has_column df) [''Time_To_Crisis'', ''Crisis_Event''] then
        (case project df cox_columns of
           Inl e \<Rightarrow> CoxError ''Error performing Cox analysis. Please check the data format.''
         | Inr selected \<Rightarrow>
             if length (df_rows (dropna selected)) > 0 then CoxFitted (df_rows (dropna selected))
             else CoxWarning ''Insufficient data for Cox analysis after handling missing values.'')
      else CoxWarning ''Required columns for Cox analysis are not available.'')"

text \<open>
  The survival analysis in the specification's words: both columns present, rows with a
  missing value in either dropped, ``insufficient data'' when a column is absent or no
  row remains, otherwise a fit on the remaining rows.
\<close>

definition km_as_specified :: "dataframe \<Rightarrow> km_outcome" where
  "km_as_specified df =
     (case project df [''Time_To_Crisis'', ''Crisis_Event''] of
        Inl e \<Rightarrow> KMWarning ''insufficient data''
      | Inr pairs \<Rightarrow>
          if df_rows (dropna pairs) = [] then KMWarning ''insufficient data''
          else KMFitted (column_values (dropna pairs) ''Time_To_Crisis'')
                        (column_values (dropna pairs) ''Crisis_Event''))"

text \<open>Two frames with a missing duration: one of two rows, and the only row.\<close>

definition follow_up :: dataframe where
  "follow_up =
     \<lparr>df_columns = [(''Time_To_Crisis'', Float64), (''Crisis_Event'', Int64)],
      df_rows = [[(''Time_To_Crisis'', PNone), (''Crisis_Event'', PInt 1)],
                 [(''Time_To_Crisis'', PInt 120), (''Crisis_Event'', PInt 0)]]\<rparr>"

definition no_follow_up :: dataframe where
  "no_follow_up =
     \<lparr>df_columns = [(''Time_To_Crisis'', Object), (''Crisis_Event'', Int64)],
      df_rows = [[(''Time_To_Crisis'', PNone), (''Crisis_Event'', PInt 1)]]\<rparr>"

section \<open>Export\<close>

text \<open>
  \<^verbatim>\<open>app.py\<close> defines \<^verbatim>\<open>display_filtered_results\<close> and \<^verbatim>\<open>export_data\<close> twice each, at the
  lines named below. A \<^verbatim>\<open>def\<close> statement binds its name in the module when it runs, and
  \<^verbatim>\<open>main()\<close> is called after all of them have run, so a call looks up the binding made
  last.
\<close>

datatype def_site = Line636 | Line668 | Line1253 | Line1296

definition module_defs :: "(string \<times> def_site) list" where
  "module_defs =
     [(''display_filtered_results'', Line636), (''export_data'', Line668),
      (''display_filtered_results'', Line1253), (''export_data'', Line1296)]"

definition global_lookup :: "string \<Rightarrow> def_site option" where
  "global_lookup name = map_of (rev module_defs) name"

text \<open>
  \<^verbatim>\<open>st.radio\<close> returns one of its options: the user's pick, the first option while
  nothing else is picked. A download is the file offered by \<^verbatim>\<open>st.download_button\<close>: the
  serialisation (\<^verbatim>\<open>to_csv\<close>, \<^verbatim>\<open>to_excel\<close>, \<^verbatim>\<open>to_json\<close>, which belong to pandas) of a frame
  in a format.
\<close>

datatype export_format = CSV | Excel | JSON

datatype download = Download export_format dataframe

definition radio :: "'a list \<Rightarrow> 'a \<Rightarrow> 'a" where
  "radio options pick = (if pick \<in> set options then pick else hd options)"

fun export_options :: "def_site \<Rightarrow> export_format list" where
  "export_options Line668 = [CSV, Excel, JSON]"
| "export_options Line1296 = [CSV, Excel]"
| "export_options site = []"

text \<open>
  The definition of \<^verbatim>\<open>export_data\<close> at line 668 (three formats, of the frame restricted
  to the selected columns) and the one at line 1296 (two formats, of the frame it is
  given), and the function that the name \<^verbatim>\<open>export_data\<close> denotes when it is called.
\<close>

definition export_data_668 ::
  "dataframe \<Rightarrow> string list \<Rightarrow> export_format \<Rightarrow> bool \<Rightarrow> download option \<times> ui_event list" where
  "export_data_668 df selected_columns pick clicked =
     (let export_format = radio (export_options Line668) pick in
      if clicked then
        (case (if selected_columns \<noteq> [] then project df selected_columns else Inr df) of
           Inl e \<Rightarrow> (None, [StError (''Error exporting data: '' @ str_exn e)])
         | Inr export_df \<Rightarrow>
             if export_format = CSV then (Some (Download CSV export_df), [])
             else if export_format = Excel then (Some (Download Excel export_df), [])
             else (Some (Download JSON export_df), []))
      else (None, []))"

definition export_data_1296 ::
  "dataframe \<Rightarrow> string list \<Rightarrow> export_format \<Rightarrow> bool \<Rightarrow> download option \<times> ui_event list" where
  "export_data_1296 df selected_columns pick clicked =
     (let export_format = radio (export_options Line1296) pick in
      if clicked then
        (let export_df = df in
         if export_format = CSV
         then (Some (Download CSV export_df), [StSuccess ''Export prepared successfully!''])
         else (Some (Download Excel export_df), [StSuccess ''Export prepared successfully!'']))
      else (None, []))"

definition export_data ::
  "dataframe \<Rightarrow> string list \<Rightarrow> export_format \<Rightarrow> bool \<Rightarrow> download option \<times> ui_event list" where
  "export_data df selected_columns pick clicked =
     (if global_lookup ''export_data'' = Some Line668
      then export_data_668 df selected_columns pick clicked
      else export_data_1296 df selected_columns pick clicked)"

definition export_formats_offered :: "export_format list" where
  "export_formats_offered =
     (case global_lookup ''export_data'' of None \<Rightarrow> [] | Some site \<Rightarrow> export_options site)"

text \<open>
  \<^verbatim>\<open>display_filtered_results\<close> as bound last (line 1253): the selected columns of the
  filtered frame are copied and every cell is rendered as text (a timestamp through
  \<^verbatim>\<open>strftime\<close>, which is a parameter; anything else through \<^verbatim>\<open>astype(str)\<close>, which prints a
  number of a \<^verbatim>\<open>float64\<close> column with a decimal point); the export is offered for that
  rendered frame when it has a row.
\<close>

fun display_cell :: "(int \<Rightarrow> string) \<Rightarrow> dtype \<Rightarrow> pyval \<Rightarrow> pyval" where
  "display_cell strftime Datetime64 (PInt t) = PStr (strftime t)"
| "display_cell strftime Datetime64 v = PNone"
| "display_cell strftime Float64 (PInt n) = PStr (py_str (PInt n) @ ''.0'')"
| "display_cell strftime Float64 PNone = PStr ''nan''"
| "display_cell strftime dt v = PStr (py_str v)"

definition dtype_of :: "dataframe \<Rightarrow> string \<Rightarrow> dtype" where
  "dtype_of df c = (case map_of (df_columns df) c of None \<Rightarrow> Object | Some d \<Rightarrow> d)"

definition to_display :: "(int \<Rightarrow> string) \<Rightarrow> dataframe \<Rightarrow> dataframe" where
  "to_display strftime df =
     \<lparr>df_columns = map (\<lambda>(c, d). (c, Object)) (df_columns df),
      df_rows = map (map (\<lambda>(c, v). (c, display_cell strftime (dtype_of df c) v))) (df_rows df)\<rparr>"

definition display_filtered_results_1253 ::
  "(int \<Rightarrow> string) \<Rightarrow> dataframe \<Rightarrow> dataframe \<Rightarrow> string list \<Rightarrow> export_format \<Rightarrow> bool
     \<Rightarrow> download option \<times> ui_event list" where
  "display_filtered_results_1253 strftime filtered_df df selected_columns pick clicked =
     (if selected_columns \<noteq> [] then
        (case project filtered_df selected_columns of
           Inl e \<Rightarrow> (None, [StError (''Error displaying results: '' @ str_exn e)])
         | Inr selected \<Rightarrow>
             (let display_df = to_display strftime selected in
              if length (df_rows display_df) > 0
              then export_data display_df selected_columns pick clicked
              else (None, [])))
      else (None, [StWarning ''Please select at least one column to display'']))"

section \<open>Recent entries management\<close>

text \<open>
  \<^verbatim>\<open>update_database_entries\<close>: \<^verbatim>\<open>DataFrame.to_sql(..., if_exists='replace', index=False)\<close>
  drops the table and creates it again from the frame, without an auto-assigned key.
\<close>

fun sql_type :: "dtype \<Rightarrow> coltype" where
  "sql_type Int64 = INTEGER"
| "sql_type Float64 = REAL"
| "sql_type Object = TEXT"
| "sql_type Datetime64 = TIMESTAMP"

definition update_database_entries :: "store \<Rightarrow> dataframe \<Rightarrow> exn + store" where
  "update_database_entries st df =
     (case get_db_connection st of
        Inl e \<Rightarrow> Inl e
      | Inr conn \<Rightarrow>
          Inr (st\<lparr>tbl := Some \<lparr>tcols = map (\<lambda>(c, d). (c, sql_type d)) (df_columns df),
                               autoinc = False, trows = df_rows df\<rparr>\<rparr>))"

text \<open>
  The helper \<^verbatim>\<open>get_latest_entries\<close>, which is defined inside
  \<^verbatim>\<open>display_recent_entries_management\<close>. \<^verbatim>\<open>ORDER BY Observation_Date DESC LIMIT ?\<close> belongs
  to SQLite and is the parameter \<open>newest_first\<close>.
\<close>

definition get_latest_entries :: "(row list \<Rightarrow> nat \<Rightarrow> row list) \<Rightarrow> store \<Rightarrow> nat \<Rightarrow> dataframe" where
  "get_latest_entries newest_first st limit =
     (case (case get_db_connection st of Inl e \<Rightarrow> Inl e | Inr conn \<Rightarrow> read_sql_query st) of
        Inl e \<Rightarrow> empty_frame
      | Inr df \<Rightarrow> df\<lparr>df_rows := newest_first (df_rows df) limit\<rparr>)"

text \<open>
  Reading a local variable of a Python function. A name that the function's body binds
  anywhere (here by the nested \<^verbatim>\<open>def\<close>) is local to the function in the whole body; read
  before the binding has run, it raises \<^verbatim>\<open>UnboundLocalError\<close>.
\<close>

definition load_fast :: "(string \<rightharpoonup> 'a) \<Rightarrow> string \<Rightarrow> exn + 'a" where
  "load_fast local_vars name =
     (case local_vars name of
        None \<Rightarrow> Inl (UnboundLocalError
                   (''cannot access local variable '' @ quoted name
                    @ '' where it is not associated with a value''))
      | Some v \<Rightarrow> Inr v)"

text \<open>
  \<^verbatim>\<open>display_recent_entries_management\<close>, statement by statement: on entry no local
  variable is bound; the first statement of the \<^verbatim>\<open>try\<close> calls \<^verbatim>\<open>get_latest_entries(20)\<close>;
  the \<^verbatim>\<open>def\<close> that binds this name is the second statement. Every exception is caught by
  the function's \<^verbatim>\<open>except Exception\<close>, which shows an error. \<open>data_editor\<close> is the user's
  edit of the grid, \<open>save_clicked\<close> the button.
\<close>

definition display_recent_entries_management ::
  "(row list \<Rightarrow> nat \<Rightarrow> row list) \<Rightarrow> (dataframe \<Rightarrow> dataframe) \<Rightarrow> bool \<Rightarrow> store
     \<Rightarrow> store \<times> ui_event list" where
  "display_recent_entries_management newest_first data_editor save_clicked st =
     (let local_vars = Map.empty in
      case load_fast local_vars ''get_latest_entries'' of
        Inl e \<Rightarrow> (st, [StError ''Error loading recent entries''])
      | Inr called \<Rightarrow>
          (let recent_data = called st 20;
               local_vars = local_vars(''get_latest_entries'' \<mapsto> get_latest_entries newest_first)
           in
           if \<not> df_empty recent_data then
             (let edited_df = data_editor recent_data in
              if save_clicked then
                (case update_database_entries st edited_df of
                   Inl e \<Rightarrow> (st, [StError (''Error saving changes: '' @ str_exn e)])
                 | Inr st' \<Rightarrow> (st', [StSuccess ''Changes saved successfully!'']))
              else (st, []))
           else (st, [StInfo ''No entries to display''])))"

section \<open>Entry validation: results\<close>

lemma validate_age_out_of_range:
  assumes "map_of data ''Age'' = Some (PInt age)" and "age < 18 \<or> age > 100"
  shows "validate_entry_data data = (False, ''Age must be between 18 and 100'')"
  using assms by (simp add: validate_entry_data_def)

text \<open>
  Claim C1. An entry whose \<^verbatim>\<open>Age\<close> is a number below 18 or above 100 is refused by
  \<^verbatim>\<open>insert_entry\<close>: it returns \<^verbatim>\<open>False\<close>, shows the validation message, and the store
  (the table and its key counter) is exactly what it was, whatever the store's state and
  whatever else the entry holds.
\<close>

theorem insert_entry_rejects_age_out_of_range:
  assumes "map_of data ''Age'' = Some (PInt age)" and "age < 18 \<or> age > 100"
  shows "insert_entry coerce st data =
           (Inr False, st, [StError ''Validation error: Age must be between 18 and 100''])"
  using validate_age_out_of_range [OF assms] by (simp add: insert_entry_def)

theorem insert_entry_rejects_age_out_of_range_witness:
  "map_of [(''Age'', PInt 17), (''Sex'', PStr ''Male'')] ''Age'' = Some (PInt 17)
   \<and> ((17::int) < 18 \<or> (17::int) > 100)
   \<and> insert_entry (\<lambda>ty v. v) \<lparr>connectable = True, tbl = Some \<lparr>tcols = schema, autoinc = True, trows = []\<rparr>, seq = 0\<rparr>
        [(''Age'', PInt 17), (''Sex'', PStr ''Male'')]
      = (Inr False, \<lparr>connectable = True, tbl = Some \<lparr>tcols = schema, autoinc = True, trows = []\<rparr>, seq = 0\<rparr>,
         [StError ''Validation error: Age must be between 18 and 100''])"
  using insert_entry_rejects_age_out_of_range
          [of "[(''Age'', PInt 17), (''Sex'', PStr ''Male'')]" 17 "\<lambda>ty v. v"
              "\<lparr>connectable = True, tbl = Some \<lparr>tcols = schema, autoinc = True, trows = []\<rparr>, seq = 0\<rparr>"]
  by simp

section \<open>Inserting and loading: results\<close>






























section \<open>Failed loads: results\<close>

text \<open>The three places where the body of \<^verbatim>\<open>load_data\<close> raises.\<close>

lemma load_fails_no_connection:
  "\<not> connectable st \<Longrightarrow> \<exists>e. load_data_body to_datetime st = Inl e"
  by (simp add: load_data_body_def get_db_connection_def)

lemma load_fails_no_table:
  "tbl st = None \<Longrightarrow> \<exists>e. load_data_body to_datetime st = Inl e"
  by (simp add: load_data_body_def get_db_connection_def read_sql_query_def)

lemma load_fails_bad_date:
  assumes "connectable st" and "tbl st = Some t"
    and "''Observation_Date'' \<in> set (map fst (tcols t))"
    and "to_datetime (map (\<lambda>r. cell r ''Observation_Date'') (trows t)) = Inl e"
  shows "load_data_body to_datetime st = Inl e"
proof -
  have "has_column \<lparr>df_columns = map (\<lambda>(c, ty). (c, infer_dtype (map (\<lambda>r. cell r c) (trows t)))) (tcols t),
                    df_rows = trows t\<rparr> ''Observation_Date''"
    using assms(3) by (force simp: has_column_def)
  with assms show ?thesis
    by (simp add: load_data_body_def get_db_connection_def read_sql_query_def column_values_def)
qed





section \<open>The filter engine: results\<close>

text \<open>Each step keeps the columns and selects rows in order.\<close>

lemma select_rows_map: "select_rows df (map g (df_rows df)) = df\<lparr>df_rows := filter g (df_rows df)\<rparr>"
proof -
  have "map fst (filter snd (zip xs (map g xs))) = filter g xs" for xs :: "row list"
    by (induction xs) auto
  then show ?thesis by (simp add: select_rows_def)
qed

lemma select_rows_subseq: "subseq (df_rows (select_rows df keep)) (df_rows df)"
proof -
  have "subseq (map fst (filter snd (zip xs ks))) xs" for xs :: "row list" and ks
  proof (induction xs arbitrary: ks)
    case Nil
    then show ?case by simp
  next
    case (Cons x xs)
    then show ?case by (cases ks) auto
  qed
  then show ?thesis by (simp add: select_rows_def)
qed

lemma select_rows_columns: "df_columns (select_rows df keep) = df_columns df"
  by (simp add: select_rows_def)

lemma text_search_shape:
  "text_search re df search_term = Inr out \<Longrightarrow>
     df_columns out = df_columns df \<and> subseq (df_rows out) (df_rows df)"
  by (auto simp: text_search_def select_rows_columns select_rows_subseq split: if_splits sum.splits)

lemma filter_age_shape:
  "filter_age df fv = Inr out \<Longrightarrow>
     df_columns out = df_columns df \<and> subseq (df_rows out) (df_rows df)"
  by (auto simp: filter_age_def select_rows_columns select_rows_subseq split: option.splits sum.splits)

lemma filter_genders_shape:
  "filter_genders df fv = Inr out \<Longrightarrow>
     df_columns out = df_columns df \<and> subseq (df_rows out) (df_rows df)"
  by (auto simp: filter_genders_def select_rows_columns select_rows_subseq split: option.splits sum.splits)

lemma apply_filters_shape:
  assumes "apply_filters re df search_term fv = Inr out"
  shows "df_columns out = df_columns df \<and> subseq (df_rows out) (df_rows df)"
proof -
  from assms obtain df1 df2 where steps: "text_search re df search_term = Inr df1"
    "filter_age df1 fv = Inr df2" "filter_genders df2 fv = Inr out"
    by (auto simp: apply_filters_def split: sum.splits)
  note a = text_search_shape [OF steps(1)] and b = filter_age_shape [OF steps(2)]
    and c = filter_genders_shape [OF steps(3)]
  have "subseq (df_rows df2) (df_rows df)"
    using a b by (blast intro: subseq_order.trans)
  then have "subseq (df_rows out) (df_rows df)"
    using c by (blast intro: subseq_order.trans)
  with a b c show ?thesis by simp
qed

lemma subseq_set: "subseq xs ys \<Longrightarrow> set xs \<subseteq> set ys"
  by (induction rule: list_emb.induct) auto

lemma apply_filters_inactive:
  "age_range fv = None \<Longrightarrow> selected_genders fv = None \<Longrightarrow> apply_filters re df [] fv = Inr df"
  by (simp add: apply_filters_def text_search_def filter_age_def filter_genders_def)

text \<open>
  Claim C3. Whenever \<^verbatim>\<open>apply_filters\<close> returns a frame, for any table, search term and
  criteria, that frame has the table's columns and its rows are rows of the table, in the
  table's order (a subsequence, hence a subset). With an empty search term and neither
  range nor categorical selection, it returns the table itself.
\<close>

theorem apply_filters_subset:
  "(apply_filters re df search_term fv = Inr out \<longrightarrow>
      df_columns out = df_columns df \<and> subseq (df_rows out) (df_rows df)
      \<and> set (df_rows out) \<subseteq> set (df_rows df))
   \<and> (age_range fv = None \<and> selected_genders fv = None \<longrightarrow> apply_filters re df [] fv = Inr df)"
proof (rule conjI)
  show "apply_filters re df search_term fv = Inr out \<longrightarrow>
      df_columns out = df_columns df \<and> subseq (df_rows out) (df_rows df)
      \<and> set (df_rows out) \<subseteq> set (df_rows df)"
  proof
    assume "apply_filters re df search_term fv = Inr out"
    from apply_filters_shape [OF this] show "df_columns out = df_columns df
      \<and> subseq (df_rows out) (df_rows df) \<and> set (df_rows out) \<subseteq> set (df_rows df)"
      by (simp add: subseq_set)
  qed
  show "age_range fv = None \<and> selected_genders fv = None \<longrightarrow> apply_filters re df [] fv = Inr df"
    by (simp add: apply_filters_inactive)
qed



lemma or_hits:
  "map (\<lambda>(m, h). m \<or> h) (zip (map g xs) (map f xs)) = map (\<lambda>r. g r \<or> f r) xs"
  by (induction xs) auto

lemma text_mask_found:
  assumes "re_compile_ignorecase re pat = Inr found"
  shows "text_mask re pat df cols (map g (df_rows df)) =
           Inr (map (\<lambda>r. g r \<or> list_ex (\<lambda>c. found (py_str (cell r c))) cols) (df_rows df))"
proof (induction cols arbitrary: g)
  case Nil
  then show ?case by simp
next
  case (Cons c cols)
  have "map (\<lambda>(m, h). m \<or> h) (zip (map g (df_rows df)) (map (\<lambda>v. found (py_str v)) (column_values df c)))
          = map (\<lambda>r. g r \<or> found (py_str (cell r c))) (df_rows df)"
    by (simp add: column_values_def or_hits)
  with assms Cons.IH [of "\<lambda>r. g r \<or> found (py_str (cell r c))"] show ?case
    by (auto simp: str_contains_def)
qed

lemma text_search_found:
  assumes "re_compile_ignorecase re pat = Inr found" and "pat \<noteq> []"
  shows "text_search re df pat =
           Inr (df\<lparr>df_rows := filter (\<lambda>r. list_ex (\<lambda>c. found (py_str (cell r c))) (object_columns df)) (df_rows df)\<rparr>)"
proof -
  have "replicate (length (df_rows df)) False = map (\<lambda>r. False) (df_rows df)"
    by (simp add: map_replicate_const)
  with text_mask_found [OF assms(1), of df "object_columns df" "\<lambda>r. False"] assms(2) show ?thesis
    by (simp add: text_search_def select_rows_map)
qed


lemma traverse_all_Inr: "\<forall>x\<in>set xs. f x = Inr (g x) \<Longrightarrow> traverse f xs = Inr (map g xs)"
  by (induction xs) auto

lemma compare_column_numeric:
  assumes "numeric_column df c"
  shows "compare_column df c p =
           Inr (map (\<lambda>r. case cell r c of PInt n \<Rightarrow> p n | _ \<Rightarrow> False) (df_rows df))"
proof -
  from assms obtain dt where dt: "map_of (df_columns df) c = Some dt" "dt = Int64 \<or> dt = Float64"
    by (auto simp: numeric_column_def)
  have "compare_cell p dt (cell r c) = Inr (case cell r c of PInt n \<Rightarrow> p n | _ \<Rightarrow> False)"
    if "r \<in> set (df_rows df)" for r
    using that assms dt(2) by (cases "cell r c") (auto simp: numeric_column_def list_all_iff)
  then have "traverse (\<lambda>r. compare_cell p dt (cell r c)) (df_rows df)
               = Inr (map (\<lambda>r. case cell r c of PInt n \<Rightarrow> p n | _ \<Rightarrow> False) (df_rows df))"
    by (intro traverse_all_Inr) simp
  with dt show ?thesis
    by (auto simp: compare_column_def)
qed

lemma and_hits:
  "map (\<lambda>(a, b). a \<and> b) (zip (map g xs) (map f xs)) = map (\<lambda>r. g r \<and> f r) xs"
  by (induction xs) auto

lemma filter_age_numeric:
  assumes "age_range fv \<noteq> None \<longrightarrow> numeric_column df ''Age''"
  shows "filter_age df fv = Inr (df\<lparr>df_rows := filter (age_ok fv) (df_rows df)\<rparr>)"
proof (cases "age_range fv")
  case None
  then show ?thesis by (simp add: filter_age_def age_ok_def)
next
  case (Some bounds)
  obtain lo hi where range: "bounds = (lo, hi)" by (cases bounds)
  from Some assms have num: "numeric_column df ''Age''" by simp
  have "(\<lambda>r. (case cell r ''Age'' of PInt n \<Rightarrow> lo \<le> n | _ \<Rightarrow> False)
            \<and> (case cell r ''Age'' of PInt n \<Rightarrow> n \<le> hi | _ \<Rightarrow> False)) = age_ok fv"
    using Some range by (auto simp: age_ok_def fun_eq_iff split: pyval.splits)
  with Some range show ?thesis
    by (simp add: filter_age_def compare_column_numeric [OF num] and_hits select_rows_map)
qed

lemma filter_genders_present:
  assumes "selected_genders fv \<noteq> None \<longrightarrow> map_of (df_columns df) ''Sex'' \<noteq> None"
  shows "filter_genders df fv = Inr (df\<lparr>df_rows := filter (gender_ok fv) (df_rows df)\<rparr>)"
proof (cases "selected_genders fv")
  case None
  then show ?thesis by (simp add: filter_genders_def gender_ok_def)
next
  case (Some allowed)
  with assms obtain dt where "map_of (df_columns df) ''Sex'' = Some dt" by auto
  with Some show ?thesis
    by (simp add: filter_genders_def isin_column_def gender_ok_def [abs_def] select_rows_map)
qed

lemma numeric_column_subframe:
  assumes "numeric_column df c" and "df_columns d = df_columns df"
    and "set (df_rows d) \<subseteq> set (df_rows df)"
  shows "numeric_column d c"
  using assms by (auto simp: numeric_column_def list_all_iff)

lemma apply_filters_steps:
  assumes srch: "text_search re df search_term = Inr df1" and fit: "criteria_fit df fv"
  shows "apply_filters re df search_term fv =
           Inr (df1\<lparr>df_rows := filter (\<lambda>r. age_ok fv r \<and> gender_ok fv r) (df_rows df1)\<rparr>)"
proof -
  note shape = text_search_shape [OF srch]
  then have sub: "set (df_rows df1) \<subseteq> set (df_rows df)"
    by (simp add: subseq_set)
  have age: "filter_age df1 fv = Inr (df1\<lparr>df_rows := filter (age_ok fv) (df_rows df1)\<rparr>)"
    using fit shape sub
    by (intro filter_age_numeric) (auto simp: criteria_fit_def intro: numeric_column_subframe)
  have gender: "filter_genders (df1\<lparr>df_rows := filter (age_ok fv) (df_rows df1)\<rparr>) fv
      = Inr (df1\<lparr>df_rows := filter (\<lambda>r. age_ok fv r \<and> gender_ok fv r) (df_rows df1)\<rparr>)"
    using fit shape
    by (subst filter_genders_present) (auto simp: criteria_fit_def conj_commute)
  from srch age gender show ?thesis
    by (simp add: apply_filters_def)
qed


lemma text_search_returns:
  assumes "plain_or_dot search_term"
  shows "\<exists>df1. text_search re df search_term = Inr df1"
proof (cases "search_term = []")
  case True
  then show ?thesis by (simp add: text_search_def)
next
  case False
  from assms have "re_compile_ignorecase re search_term = Inr (search search_term)"
    by (simp add: re_compile_ignorecase_def)
  from text_search_found [OF this False] show ?thesis by blast
qed

lemma filter_age_absent:
  "age_range fv = Some bounds \<Longrightarrow> \<not> has_column df ''Age'' \<Longrightarrow> filter_age df fv = Inl (KeyError ''Age'')"
  by (cases bounds) (auto simp: filter_age_def compare_column_def has_column_def map_of_eq_None_iff [symmetric]
      simp del: map_of_eq_None_iff split: option.splits)

lemmas filter_eval =
  apply_filters_def text_search_def str_contains_def re_compile_ignorecase_def plain_or_dot_def
  other_metachars_def object_columns_def column_values_def cell_def select_rows_def
  filter_age_def compare_column_def filter_genders_def isin_column_def lower_char_def
  no_criteria_def

lemma staff_doctors:
  "apply_filters re staff ''doc'' (no_criteria\<lparr>age_range := Some (40, 50)\<rparr>)
     = Inr (staff\<lparr>df_rows := [[(''id'', PInt 2), (''Age'', PInt 45), (''Sex'', PStr ''Male''),
                  (''Healthcare_Role'', PStr ''Doctor'')]]\<rparr>)"
  by (simp add: filter_eval staff_def)

theorem apply_filters_subset_witness:
  "apply_filters no_re staff ''doc'' (no_criteria\<lparr>age_range := Some (40, 50)\<rparr>)
     = Inr (staff\<lparr>df_rows := [[(''id'', PInt 2), (''Age'', PInt 45), (''Sex'', PStr ''Male''),
                  (''Healthcare_Role'', PStr ''Doctor'')]]\<rparr>)
   \<and> subseq [[(''id'', PInt 2), (''Age'', PInt 45), (''Sex'', PStr ''Male''),
                  (''Healthcare_Role'', PStr ''Doctor'')]] (df_rows staff)
   \<and> apply_filters no_re staff [] no_criteria = Inr staff"
proof -
  let ?out = "staff\<lparr>df_rows := [[(''id'', PInt 2), (''Age'', PInt 45), (''Sex'', PStr ''Male''),
                  (''Healthcare_Role'', PStr ''Doctor'')]]\<rparr>"
  have none: "age_range no_criteria = None \<and> selected_genders no_criteria = None"
    by (simp add: no_criteria_def)
  from apply_filters_subset [of no_re staff "''doc''" "no_criteria\<lparr>age_range := Some (40, 50)\<rparr>" ?out]
    apply_filters_subset [of no_re staff "[]" no_criteria staff]
    staff_doctors [of no_re] none
  show ?thesis by simp
qed

text \<open>
  Claim C4 at the term \<^verbatim>\<open>.\<close>, which a user can type into the search box. No text cell of
  \<open>staff\<close> contains a dot, so the specification's rule keeps no row; the code compiles the
  term as a regular expression, the dot matches any character, and every row is kept.
\<close>

theorem text_search_reads_term_as_pattern:
  "text_search re staff ''.'' = Inr staff \<and> free_text_spec staff ''.'' = staff\<lparr>df_rows := []\<rparr>"
  by (simp add: filter_eval free_text_spec_def term_in_row_def lower_def staff_def
      sublist_Cons_right prefix_Cons)




text \<open>
  Claim C6, as the code has it. \<^verbatim>\<open>apply_filters\<close> returns a frame whenever the search term
  uses no operator but the dot and the criteria fit the frame. The criteria that
  \<^verbatim>\<open>display_database_front\<close> passes never name an absent column, because it binds each
  only when the column is present. Inside \<^verbatim>\<open>apply_filters\<close> nothing is skipped: a range
  that is set on a frame without \<^verbatim>\<open>Age\<close> raises \<^verbatim>\<open>KeyError\<close>.
\<close>

theorem apply_filters_returns:
  assumes "plain_or_dot search_term" and "criteria_fit df fv"
  shows "(\<exists>out. apply_filters re df search_term fv = Inr out)
       \<and> (age_range (front_locals df inp) \<noteq> None \<longrightarrow> has_column df ''Age'')
       \<and> (selected_genders (front_locals df inp) \<noteq> None \<longrightarrow> has_column df ''Sex'')
       \<and> (age_range fv' \<noteq> None \<and> \<not> has_column df ''Age'' \<longrightarrow>
            apply_filters re df [] fv' = Inl (KeyError ''Age''))"
proof -
  from text_search_returns [OF assms(1)] obtain df1 where "text_search re df search_term = Inr df1"
    by blast
  from apply_filters_steps [OF this assms(2)] have "\<exists>out. apply_filters re df search_term fv = Inr out"
    by blast
  moreover have "age_range fv' \<noteq> None \<and> \<not> has_column df ''Age'' \<longrightarrow>
            apply_filters re df [] fv' = Inl (KeyError ''Age'')"
    using filter_age_absent [of fv' _ df] by (auto simp: apply_filters_def text_search_def)
  ultimately show ?thesis
    by (simp add: front_locals_def)
qed

theorem apply_filters_returns_witness:
  "plain_or_dot ''d.c'' \<and> criteria_fit staff (no_criteria\<lparr>age_range := Some (40, 50)\<rparr>)
   \<and> (\<exists>out. apply_filters no_re staff ''d.c'' (no_criteria\<lparr>age_range := Some (40, 50)\<rparr>) = Inr out)
   \<and> age_range (front_locals roles_only
        \<lparr>in_age_range = (18, 60), in_genders = [], in_roles = [], in_departments = [],
         in_risk_level = (0, 10), in_crisis_filter = [PInt 0, PInt 1]\<rparr>) = None
   \<and> apply_filters no_re roles_only [] (no_criteria\<lparr>age_range := Some (18, 60)\<rparr>) = Inl (KeyError ''Age'')"
proof -
  let ?fv = "no_criteria\<lparr>age_range := Some (40, 50)\<rparr>"
  let ?inp = "\<lparr>in_age_range = (18, 60), in_genders = [], in_roles = [], in_departments = [],
         in_risk_level = (0, 10), in_crisis_filter = [PInt 0, PInt 1]\<rparr>"
  have p: "plain_or_dot ''d.c''"
    by (simp add: plain_or_dot_def other_metachars_def)
  have c: "criteria_fit staff ?fv"
    by (simp add: criteria_fit_def numeric_column_def no_criteria_def staff_def cell_def)
  have absent: "\<not> has_column roles_only ''Age''" "\<not> has_column staff ''Department''"
    by (simp_all add: has_column_def roles_only_def staff_def)
  have set: "age_range (no_criteria\<lparr>age_range := Some (18, 60)\<rparr>) \<noteq> None"
    by simp
  have p0: "plain_or_dot []" and c0: "criteria_fit roles_only no_criteria"
    by (simp_all add: plain_or_dot_def criteria_fit_def no_criteria_def)
  note staff_case = apply_filters_returns [OF p c, of no_re ?inp "no_criteria\<lparr>age_range := Some (18, 60)\<rparr>"]
  note roles_case = apply_filters_returns [OF p0 c0, of no_re ?inp "no_criteria\<lparr>age_range := Some (18, 60)\<rparr>"]
  from staff_case have returns: "\<exists>out. apply_filters no_re staff ''d.c'' ?fv = Inr out"
    by (rule conjunct1)
  from roles_case absent(1) have gate: "age_range (front_locals roles_only ?inp) = None"
    by blast
  from roles_case absent(1) set
  have raises: "apply_filters no_re roles_only [] (no_criteria\<lparr>age_range := Some (18, 60)\<rparr>) = Inl (KeyError ''Age'')"
    by blast
  from p c returns gate raises show ?thesis
    by (intro conjI)
qed

text \<open>A frame without \<^verbatim>\<open>Age\<close> and a range that is set: \<^verbatim>\<open>apply_filters\<close> raises.\<close>

theorem apply_filters_returns_counterexample:
  "apply_filters no_re roles_only [] (no_criteria\<lparr>age_range := Some (18, 60)\<rparr>) = Inl (KeyError ''Age'')"
  by (simp add: filter_eval roles_only_def)

section \<open>Survival analyses: results\<close>

lemma kaplan_meier_fits_every_row:
  "has_column df ''Time_To_Crisis'' \<Longrightarrow> has_column df ''Crisis_Event'' \<Longrightarrow>
     display_kaplan_meier_analysis df
       = KMFitted (column_values df ''Time_To_Crisis'') (column_values df ''Crisis_Event'')"
  by (simp add: display_kaplan_meier_analysis_def)

text \<open>
  Claim C7 at two frames that have both columns and a missing duration. The specification
  drops the incomplete row, and reports insufficient data when none remains; the code
  hands every row to the estimator, the incomplete one included, and fits even when no
  complete row remains.
\<close>

theorem kaplan_meier_keeps_incomplete_rows:
  "display_kaplan_meier_analysis follow_up = KMFitted [PNone, PInt 120] [PInt 1, PInt 0]
   \<and> km_as_specified follow_up = KMFitted [PInt 120] [PInt 0]
   \<and> display_kaplan_meier_analysis no_follow_up = KMFitted [PNone] [PInt 1]
   \<and> km_as_specified no_follow_up = KMWarning ''insufficient data''"
  by (simp add: display_kaplan_meier_analysis_def km_as_specified_def follow_up_def no_follow_up_def
      has_column_def column_values_def cell_def project_def project_row_def dropna_def)

text \<open>The sibling analysis does drop the row and reports that nothing is left.\<close>

lemma cox_analysis_drops_incomplete_rows:
  "display_cox_analysis
     (no_follow_up\<lparr>df_columns := df_columns no_follow_up @
        [(''Age'', Int64), (''Work_Stress_Level'', Int64), (''Burnout_Level'', Int64),
         (''Social_Isolation'', Int64)]\<rparr>)
     = CoxWarning ''Insufficient data for Cox analysis after handling missing values.''"
  by (simp add: display_cox_analysis_def cox_columns_def no_follow_up_def
      has_column_def column_values_def cell_def project_def project_row_def dropna_def)

section \<open>Export: results\<close>

text \<open>
  Claim C8, as the code has it. The names \<^verbatim>\<open>export_data\<close> and \<^verbatim>\<open>display_filtered_results\<close>
  denote their later definitions, and the export offers two formats, CSV and the
  spreadsheet format. With one of them picked, at least one column selected (all of them
  columns of the filtered frame) and at least one row in the filtered frame, pressing the
  button yields the download in the picked format of exactly this frame: the selected
  columns, in the order selected, and for each row of the filtered frame, in order, its
  cells under those columns rendered as text.
\<close>

theorem export_data_offers_two_formats:
  assumes "pick = CSV \<or> pick = Excel" and "selected_columns \<noteq> []"
    and "list_all (has_column filtered_df) selected_columns" and "df_rows filtered_df \<noteq> []"
  shows "global_lookup ''export_data'' = Some Line1296
       \<and> global_lookup ''display_filtered_results'' = Some Line1253
       \<and> export_formats_offered = [CSV, Excel]
       \<and> fst (display_filtered_results_1253 strftime filtered_df df selected_columns pick True)
           = Some (Download pick
               \<lparr>df_columns = map (\<lambda>c. (c, Object)) selected_columns,
                df_rows = map (\<lambda>r. map (\<lambda>c. (c, display_cell strftime (dtype_of filtered_df c) (cell r c)))
                                     selected_columns) (df_rows filtered_df)\<rparr>)"
proof -
  have live: "global_lookup ''export_data'' = Some Line1296"
    "global_lookup ''display_filtered_results'' = Some Line1253"
    by (simp_all add: global_lookup_def module_defs_def)
  from assms(3) have none: "filter (\<lambda>c. \<not> has_column filtered_df c) selected_columns = []"
    by (simp add: list_all_iff filter_empty_conv)
  let ?sel = "\<lparr>df_columns = map (\<lambda>c. (c, dtype_of filtered_df c)) selected_columns,
               df_rows = map (project_row selected_columns) (df_rows filtered_df)\<rparr>"
  have proj: "project filtered_df selected_columns = Inr ?sel"
    using none by (simp add: project_def dtype_of_def)
  have same_dtype: "dtype_of ?sel c = dtype_of filtered_df c" if "c \<in> set selected_columns" for c
    using that by (simp add: dtype_of_def map_of_map_restrict)
  have disp: "to_display strftime ?sel =
      \<lparr>df_columns = map (\<lambda>c. (c, Object)) selected_columns,
       df_rows = map (\<lambda>r. map (\<lambda>c. (c, display_cell strftime (dtype_of filtered_df c) (cell r c)))
                                     selected_columns) (df_rows filtered_df)\<rparr>"
    using same_dtype by (simp add: to_display_def project_row_def comp_def cong: map_cong)
  from assms(1,2,4) live proj disp show ?thesis
    by (auto simp: display_filtered_results_1253_def export_data_def export_data_1296_def
        export_formats_offered_def radio_def Let_def)
qed


theorem export_data_offers_two_formats_witness:
  "list_all (has_column staff) [''Age'', ''Sex''] \<and> df_rows staff \<noteq> []
   \<and> export_formats_offered = [CSV, Excel]
   \<and> fst (display_filtered_results_1253 (\<lambda>t. ''2024-05-01 10:00:00'') staff staff [''Age'', ''Sex''] Excel True)
       = Some (Download Excel
           \<lparr>df_columns = [(''Age'', Object), (''Sex'', Object)],
            df_rows = [[(''Age'', PStr ''30''), (''Sex'', PStr ''Female'')],
                       [(''Age'', PStr ''45''), (''Sex'', PStr ''Male'')]]\<rparr>)"
proof -
  have cols: "list_all (has_column staff) [''Age'', ''Sex'']"
    by (simp add: has_column_def staff_def)
  have rows: "df_rows staff \<noteq> []"
    by (simp add: staff_def)
  have pick: "Excel = CSV \<or> Excel = Excel" and sel: "[''Age'', ''Sex''] \<noteq> []"
    by simp_all
  from export_data_offers_two_formats [OF pick sel cols rows, of "\<lambda>t. ''2024-05-01 10:00:00''" staff]
    cols rows
  show ?thesis
    by (simp add: staff_def dtype_of_def cell_def digits.simps)
qed

text \<open>JSON, which the specification lists, is not among the formats offered.\<close>

theorem export_data_offers_two_formats_counterexample:
  "JSON \<notin> set export_formats_offered"
  by (simp add: export_formats_offered_def global_lookup_def module_defs_def)

section \<open>Recent entries management: results\<close>

text \<open>
  Claim C10. Whatever the store holds, whatever the user would type into the grid and
  whether or not the save button counts as pressed, \<^verbatim>\<open>display_recent_entries_management\<close>
  ends in its error branch: the helper is read before the statement that binds it, no
  entry is fetched, \<^verbatim>\<open>update_database_entries\<close> is not reached and the store is returned
  as it was.
\<close>

theorem recent_entries_management_always_fails:
  "display_recent_entries_management newest_first data_editor save_clicked st
     = (st, [StError ''Error loading recent entries''])"
  by (simp add: display_recent_entries_management_def load_fast_def)

end
